theory Spec2Isabelle
  imports Complex_Main
begin

section \<open>Installability helper (hooks/usePWAStatus.ts)\<close>

text \<open>
  The hook keeps four pieces of React state and one local-storage entry
  (\<^verbatim>\<open>'pwa-installed'\<close>). The captured \<^verbatim>\<open>beforeinstallprompt\<close> event is opaque to the
  hook, so it is a one-constructor datatype; \<^verbatim>\<open>null\<close> is \<open>None\<close>. The answer the user
  gives to the browser's dialogue (\<^verbatim>\<open>deferredPrompt.userChoice\<close>) comes from outside
  and is an argument of \<open>installPWA\<close>. The \<^verbatim>\<open>throw\<close> of the source is the \<open>Inl\<close>
  branch of the result.
\<close>

datatype prompt_event = BeforeInstallPromptEvent

datatype pwa_error = PromptUnavailable
  \<comment> \<open>\<^verbatim>\<open>new Error("PWA install prompt not available")\<close>\<close>

record pwa_state =
  isInstalled :: bool
  isStandalone :: bool
  canInstall :: bool
  deferredPrompt :: "prompt_event option"
  ls_pwa_installed :: "string option"

definition checkIfInstalled :: "bool \<Rightarrow> pwa_state \<Rightarrow> pwa_state" where
  "checkIfInstalled isStandaloneMode s =
     s\<lparr>isStandalone := isStandaloneMode,
       isInstalled := (isStandaloneMode \<or> ls_pwa_installed s = Some ''true'')\<rparr>"

definition handleBeforeInstallPrompt :: "prompt_event \<Rightarrow> pwa_state \<Rightarrow> pwa_state" where
  "handleBeforeInstallPrompt e s = s\<lparr>deferredPrompt := Some e, canInstall := True\<rparr>"

definition handleAppInstalled :: "pwa_state \<Rightarrow> pwa_state" where
  "handleAppInstalled s =
     s\<lparr>isInstalled := True, canInstall := False, ls_pwa_installed := Some ''true''\<rparr>"

definition installPWA :: "string \<Rightarrow> pwa_state \<Rightarrow> pwa_error + pwa_state" where
  "installPWA outcome s =
     (case deferredPrompt s of
        None \<Rightarrow> Inl PromptUnavailable
      | Some p \<Rightarrow>
          Inr ((if outcome = ''accepted''
                then s\<lparr>isInstalled := True, canInstall := False,
                       ls_pwa_installed := Some ''true''\<rparr>
                else s)\<lparr>deferredPrompt := None\<rparr>))"

definition pwa_example :: pwa_state where
  "pwa_example =
     \<lparr>isInstalled = False, isStandalone = False, canInstall = True,
      deferredPrompt = Some BeforeInstallPromptEvent, ls_pwa_installed = None\<rparr>"



section \<open>JavaScript values used by the components\<close>

text \<open>
  A JavaScript \<^verbatim>\<open>number\<close> is modelled as a real: the components only compare
  numbers and pass them on, and \<^verbatim>\<open>NaN\<close> and the infinities are left out. An optional
  or nullable value is an \<open>option\<close>. The operator \<^verbatim>\<open>a || b\<close> yields \<^verbatim>\<open>b\<close> when \<^verbatim>\<open>a\<close> is
  falsy: \<^verbatim>\<open>undefined\<close>, \<^verbatim>\<open>null\<close>, the empty string, or the number zero.
  A string is a list of 8-bit characters, and \<open>length\<close> counts them as
  \<^verbatim>\<open>.length\<close> counts the code units of a string of such characters.
\<close>

definition truthy :: "string option \<Rightarrow> bool" where
  "truthy v = (case v of None \<Rightarrow> False | Some s \<Rightarrow> s \<noteq> [])"

definition or_str :: "string option \<Rightarrow> string \<Rightarrow> string" where
  \<comment> \<open>\<^verbatim>\<open>v || d\<close> for an optional string \<^verbatim>\<open>v\<close> and a string \<^verbatim>\<open>d\<close>\<close>
  "or_str v d = (case v of None \<Rightarrow> d | Some s \<Rightarrow> if s = [] then d else s)"

definition or_opt :: "string option \<Rightarrow> string option \<Rightarrow> string option" where
  \<comment> \<open>\<^verbatim>\<open>a || b\<close> for two optional strings\<close>
  "or_opt a b = (if truthy a then a else b)"

definition or_num :: "real option \<Rightarrow> real \<Rightarrow> real" where
  \<comment> \<open>\<^verbatim>\<open>v || d\<close> for an optional number \<^verbatim>\<open>v\<close>\<close>
  "or_num v d = (case v of None \<Rightarrow> d | Some x \<Rightarrow> if x = 0 then d else x)"

definition or_int :: "int option \<Rightarrow> int \<Rightarrow> int" where
  "or_int v d = (case v of None \<Rightarrow> d | Some x \<Rightarrow> if x = 0 then d else x)"

definition truthy_bool :: "bool option \<Rightarrow> bool" where
  "truthy_bool v = (case v of None \<Rightarrow> False | Some b \<Rightarrow> b)"

definition isWhitespace :: "char \<Rightarrow> bool" where
  \<comment> \<open>the white space and line terminators of \<^verbatim>\<open>String.prototype.trim\<close> among the
      8-bit characters: TAB, LF, VT, FF, CR, SP and NBSP\<close>
  "isWhitespace c =
     (let n = (of_char c :: nat) in (9 \<le> n \<and> n \<le> 13) \<or> n = 32 \<or> n = 160)"

definition trim :: "string \<Rightarrow> string" where
  "trim s = rev (dropWhile isWhitespace (rev (dropWhile isWhitespace s)))"

definition blank :: "string option \<Rightarrow> bool" where
  \<comment> \<open>\<^verbatim>\<open>!v?.trim()\<close>\<close>
  "blank v = (case v of None \<Rightarrow> True | Some s \<Rightarrow> trim s = [])"

definition filterBoolean :: "string option list \<Rightarrow> string list" where
  \<comment> \<open>\<^verbatim>\<open>xs.filter(Boolean)\<close> on optional strings\<close>
  "filterBoolean xs = List.map_filter (\<lambda>v. if truthy v then v else None) xs"

fun join :: "string \<Rightarrow> string list \<Rightarrow> string" where
  "join sep [] = []"
| "join sep [x] = x"
| "join sep (x # y # ys) = x @ sep @ join sep (y # ys)"


section \<open>Data model\<close>

record latlng =
  lat :: real
  lng :: real

record location = latlng +
  address :: "string option"

record slot =
  timeRange :: string
  period :: string
  available :: int
  maxCapacity :: int

text \<open>
  The three components each declare an interface \<^verbatim>\<open>Washerman\<close> for the same backend
  object; the record has the fields of all three, the optional ones as options. The
  map component guards against a missing location or coordinate
  (\<^verbatim>\<open>w.location?.lat != null\<close>), so the location is optional as well.
\<close>

record washerman =
  id_w :: string
  name_w :: string
  contact :: string
  range_w :: "real option"
  location_w :: "latlng option"
  distance_w :: "real option"
  isAvailable :: "bool option"
  availableSlots :: "slot list option"
  totalAvailableSlots :: "int option"

record service_option =
  id_o :: string
  name_o :: string
  price :: real

record service =
  id_s :: string
  title :: string
  name_s :: string
  category :: string
  description :: string
  image :: string
  options :: "service_option list"
  washerman_s :: washerman

record availability_summary =
  servicesAvailable :: bool
  totalServices :: int
  totalWashermen :: int
  inRangeWashermen :: int
  outOfRangeWashermen :: int

record availability_response =
  success :: bool
  customerLocation_r :: location
  availability :: availability_summary
  services :: "service list"
  message :: string
  suggestion :: "string option"

record address_details =
  houseNumber :: "string option"
  street :: "string option"
  landmark :: "string option"
  city :: "string option"
  state :: "string option"
  zip_a :: "string option"

text \<open>The \<^verbatim>\<open>address\<close> object of a geocoding answer, with the keys the code reads.\<close>

record raw_address =
  house_number :: "string option"
  road :: "string option"
  suburb :: "string option"
  neighbourhood :: "string option"
  landmark_n :: "string option"
  public_building :: "string option"
  city_n :: "string option"
  town :: "string option"
  village :: "string option"
  county :: "string option"
  state_n :: "string option"
  postcode :: "string option"

record geocode_hit =
  lat_g :: string
  lon_g :: string
  display_name :: string
  address_g :: "raw_address option"

record delivery_address =
  houseNo :: string
  street_d :: string
  landmark_d :: string
  city_d :: string
  state_d :: string
  pincode :: string
  fullAddress :: string
  coordinates :: latlng

record structured_address =
  street_p :: string
  city_p :: "string option"
  state_p :: "string option"
  zip_p :: "string option"

datatype posted_address = Structured structured_address | Plain "string option"

record save_body =
  lat_b :: real
  lng_b :: real
  address_b :: posted_address
  deliveryAddress_b :: "delivery_address option"


section \<open>Location capture and availability check (LocationBasedServiceFilter)\<close>

text \<open>
  The component's React state and the three local-storage entries it touches
  (\<^verbatim>\<open>'token'\<close>, \<^verbatim>\<open>'customerLocation'\<close>, \<^verbatim>\<open>'deliveryAddress'\<close>) form one record.
  The entry \<^verbatim>\<open>'customerLocation'\<close> holds a text: either the one \<^verbatim>\<open>JSON.stringify\<close>
  wrote for a location, which \<^verbatim>\<open>JSON.parse\<close> reads back, or some other text, on
  which \<^verbatim>\<open>JSON.parse\<close> throws. \<^verbatim>\<open>addressErrors\<close> is an object with string keys, here
  the list of its entries in insertion order.

  Each handler takes the state and returns the new state with the trace of what it did
  to the outside: the parent callbacks it invoked and the requests it issued, in order.
  A parent callback is a notification that returns normally. What the outside answers
  (the geolocation service, the geocoder, the backend) is an argument of the handler.
  The effect that re-runs \<open>checkServiceAvailability\<close> after \<^verbatim>\<open>customerLocation\<close> has
  changed is a separate step of the caller.
\<close>

datatype stored_location =
    Stringified location  \<comment> \<open>\<^verbatim>\<open>JSON.stringify(location)\<close>\<close>
  | Unparsable            \<comment> \<open>a text that \<^verbatim>\<open>JSON.parse\<close> rejects\<close>

record filter_state =
  customerLocation :: "location option"
  isDetectingLocation :: bool
  isCheckingAvailability :: bool
  availabilityData :: "availability_response option"
  error :: string
  manualAddress :: string
  showManualInput :: bool
  showMap :: bool
  mapCenter :: latlng
  selectedMapLocation :: "location option"
  showAddressForm :: bool
  addressDetails :: address_details
  addressErrors :: "(string \<times> string) list"
  ls_token :: "string option"
  ls_customerLocation :: "stored_location option"
  ls_deliveryAddress :: "delivery_address option"

datatype event =
    OnServicesFound "service list"
  | OnNoServices
  | OnLocationSet location
  | PostCheckAvailability string location
  | PostUserLocation string save_body
  | NominatimSearch string
  | NominatimReverse real real
  | GetCurrentLocation

fun isCallback :: "event \<Rightarrow> bool" where
  "isCallback (OnServicesFound _) = True"
| "isCallback OnNoServices = True"
| "isCallback (OnLocationSet _) = True"
| "isCallback _ = False"

definition callbacks :: "event list \<Rightarrow> event list" where
  "callbacks evs = filter isCallback evs"

definition requests :: "event list \<Rightarrow> event list" where
  "requests evs = filter (\<lambda>e. \<not> isCallback e) evs"

fun isSaveCall :: "event \<Rightarrow> bool" where
  "isSaveCall (PostUserLocation _ _) = True"
| "isSaveCall _ = False"

text \<open>What the outside answers.\<close>

datatype 'a axios_result =
    Fulfilled 'a
  | RejectedStatus nat "string option"
      \<comment> \<open>a response with a non-2xx status and \<^verbatim>\<open>err.response?.data?.message\<close>\<close>
  | RejectedNoResponse
      \<comment> \<open>no response at all: \<^verbatim>\<open>err.response\<close> is undefined\<close>

datatype geolocation_result =
    Located location
  | LocationError "string option"  \<comment> \<open>\<^verbatim>\<open>err.message\<close>\<close>

datatype reverse_result =
    ReverseOk "string option" "raw_address option"
      \<comment> \<open>\<^verbatim>\<open>data.display_name\<close> and \<^verbatim>\<open>data.address\<close>\<close>
  | ReverseFailed

datatype search_result =
    SearchOk "geocode_hit list"
  | SearchFailed

definition emptyAddressDetails :: address_details where
  "emptyAddressDetails =
     \<lparr>houseNumber = None, street = None, landmark = None, city = None, state = None,
      zip_a = None\<rparr>"

definition deriveAddressDetails :: "raw_address option \<Rightarrow> address_details" where
  "deriveAddressDetails addr =
     (case addr of
        None \<Rightarrow> emptyAddressDetails
      | Some a \<Rightarrow>
          (let streetParts = filterBoolean [road a, suburb a, neighbourhood a] in
           \<lparr>houseNumber = Some (or_str (house_number a) ''''),
            street = Some (join '', '' streetParts),
            landmark = Some (or_str (or_opt (landmark_n a) (public_building a)) ''''),
            city = Some (or_str (or_opt (or_opt (or_opt (city_n a) (town a)) (village a))
                                   (county a)) ''''),
            state = Some (or_str (state_n a) ''''),
            zip_a = Some (or_str (postcode a) '''')\<rparr>))"

definition newErrors :: "address_details \<Rightarrow> (string \<times> string) list" where
  "newErrors d =
     (if blank (houseNumber d)
      then [(''houseNumber'', ''House/Flat/Block No. is required'')] else []) @
     (if blank (street d) then [(''street'', ''Street/Area is required'')] else []) @
     (if blank (city d) then [(''city'', ''City is required'')] else []) @
     (if blank (state d) then [(''state'', ''State is required'')] else []) @
     (if blank (zip_a d) \<or> map_option length (zip_a d) \<noteq> Some 6
      then [(''zip'', ''Valid 6-digit pincode is required'')] else [])"

definition validateAddressDetails :: "filter_state \<Rightarrow> bool \<times> filter_state" where
  "validateAddressDetails s =
     (let e = newErrors (addressDetails s) in (e = [], s\<lparr>addressErrors := e\<rparr>))"

definition detailedAddress :: "location \<Rightarrow> address_details \<Rightarrow> delivery_address" where
  "detailedAddress loc details =
     \<lparr>houseNo = or_str (houseNumber details) '''',
      street_d = or_str (street details) '''',
      landmark_d = or_str (landmark details) '''',
      city_d = or_str (city details) '''',
      state_d = or_str (state details) '''',
      pincode = or_str (zip_a details) '''',
      fullAddress = join '', '' (filterBoolean
        [houseNumber details, street details, landmark details, city details,
         state details, zip_a details]),
      coordinates = \<lparr>lat = lat loc, lng = lng loc\<rparr>\<rparr>"

definition saveBody :: "location \<Rightarrow> address_details option \<Rightarrow> save_body" where
  "saveBody loc details =
     \<lparr>lat_b = lat loc, lng_b = lng loc,
      address_b =
        (case details of
           Some d \<Rightarrow>
             Structured
               \<lparr>street_p = join '', '' (filterBoolean [houseNumber d, street d, landmark d]),
                city_p = city d, state_p = state d, zip_p = zip_a d\<rparr>
         | None \<Rightarrow> Plain (address loc)),
      deliveryAddress_b = map_option (detailedAddress loc) details\<rparr>"

definition saveLocationToBackend ::
  "unit axios_result \<Rightarrow> location \<Rightarrow> address_details option \<Rightarrow> filter_state
     \<Rightarrow> filter_state \<times> event list" where
  "saveLocationToBackend posted loc details s =
     (case ls_token s of
        None \<Rightarrow> (s, [])
      | Some token \<Rightarrow>
          if token = [] then (s, [])
          else
            (case posted of
               Fulfilled _ \<Rightarrow>
                 ((case details of
                     Some d \<Rightarrow> s\<lparr>ls_deliveryAddress := Some (detailedAddress loc d)\<rparr>
                   | None \<Rightarrow> s),
                  [PostUserLocation token (saveBody loc details)])
             | _ \<Rightarrow> (s, [PostUserLocation token (saveBody loc details)])))"

definition checkServiceAvailability ::
  "availability_response axios_result \<Rightarrow> location \<Rightarrow> filter_state
     \<Rightarrow> filter_state \<times> event list" where
  "checkServiceAvailability posted loc s =
     (let s1 = s\<lparr>isCheckingAvailability := True, error := ''''\<rparr> in
      case ls_token s1 of
        None \<Rightarrow>
          (s1\<lparr>error := ''Please log in to check service availability'',
              isCheckingAvailability := False\<rparr>, [])
      | Some token \<Rightarrow>
          if token = []
          then (s1\<lparr>error := ''Please log in to check service availability'',
                   isCheckingAvailability := False\<rparr>, [])
          else
            (case posted of
               Fulfilled d \<Rightarrow>
                 (s1\<lparr>availabilityData := Some d, isCheckingAvailability := False\<rparr>,
                  [PostCheckAvailability token loc,
                   if servicesAvailable (availability d)
                   then OnServicesFound (services d) else OnNoServices])
             | RejectedStatus status msg \<Rightarrow>
                 (s1\<lparr>error := or_str msg ''Failed to check service availability'',
                     isCheckingAvailability := False\<rparr>,
                  [PostCheckAvailability token loc, OnNoServices])
             | RejectedNoResponse \<Rightarrow>
                 (s1\<lparr>error := ''Failed to check service availability'',
                     isCheckingAvailability := False\<rparr>,
                  [PostCheckAvailability token loc, OnNoServices])))"


text \<open>
  \<open>detectCurrentLocation\<close>: \<^verbatim>\<open>getCurrentLocation\<close> comes from a utility module and
  either yields a location or throws; the reverse geocoding that follows sits in a
  \<^verbatim>\<open>try\<close> of its own, whose \<^verbatim>\<open>catch\<close> only writes to the console and blanks the
  address details.
\<close>

definition detectCurrentLocation ::
  "geolocation_result \<Rightarrow> reverse_result \<Rightarrow> filter_state \<Rightarrow> filter_state \<times> event list" where
  "detectCurrentLocation geo rev_geo s =
     (let s1 = s\<lparr>isDetectingLocation := True, error := ''''\<rparr> in
      case geo of
        LocationError msg \<Rightarrow>
          (s1\<lparr>error := or_str msg
                 ''Unable to detect your location. Please try manual address input.'',
              showManualInput := True,
              isDetectingLocation := False\<rparr>,
           [GetCurrentLocation])
      | Located loc \<Rightarrow>
          (let s2 = s1\<lparr>customerLocation := Some loc\<rparr>;
               s3 = (case rev_geo of
                       ReverseOk _ addr \<Rightarrow> s2\<lparr>addressDetails := deriveAddressDetails addr\<rparr>
                     | ReverseFailed \<Rightarrow> s2\<lparr>addressDetails := emptyAddressDetails\<rparr>)
           in (s3\<lparr>showAddressForm := True,
                  ls_customerLocation := Some (Stringified loc),
                  isDetectingLocation := False\<rparr>,
               [GetCurrentLocation, OnLocationSet loc,
                NominatimReverse (lat loc) (lng loc)])))"

text \<open>
  \<open>handleManualAddressSubmit\<close>: \<^verbatim>\<open>parseFloat\<close> turns the geocoder's decimal strings
  into numbers and is a parameter.
\<close>

definition handleManualAddressSubmit ::
  "(string \<Rightarrow> real) \<Rightarrow> search_result \<Rightarrow> filter_state \<Rightarrow> filter_state \<times> event list" where
  "handleManualAddressSubmit parseFloat found s =
     (if trim (manualAddress s) = []
      then (s\<lparr>error := ''Please enter an address''\<rparr>, [])
      else
        (let s1 = s\<lparr>isCheckingAvailability := True, error := ''''\<rparr> in
         case found of
           SearchFailed \<Rightarrow>
             (s1\<lparr>error := ''Failed to process address. Please try again.'',
                 isCheckingAvailability := False\<rparr>,
              [NominatimSearch (manualAddress s)])
         | SearchOk [] \<Rightarrow>
             (s1\<lparr>error := ''Address not found. Please try a different address.'',
                 isCheckingAvailability := False\<rparr>,
              [NominatimSearch (manualAddress s)])
         | SearchOk (result # _) \<Rightarrow>
             (let loc = \<lparr>lat = parseFloat (lat_g result),
                        lng = parseFloat (lon_g result),
                        address = Some (display_name result)\<rparr>
              in (s1\<lparr>customerLocation := Some loc,
                     addressDetails := deriveAddressDetails (address_g result),
                     showAddressForm := True,
                     ls_customerLocation := Some (Stringified loc),
                     showManualInput := False\<rparr>,
                  [NominatimSearch (manualAddress s), OnLocationSet loc]))))"

definition resetLocation :: "filter_state \<Rightarrow> filter_state" where
  "resetLocation s =
     s\<lparr>customerLocation := None, availabilityData := None, error := '''',
       manualAddress := '''', showManualInput := False, showMap := False,
       selectedMapLocation := None, ls_customerLocation := None\<rparr>"

text \<open>
  \<open>handleMapClick\<close>: \<^verbatim>\<open>toFixed4\<close> stands for \<^verbatim>\<open>x.toFixed(4)\<close>; the click may carry
  no coordinates.
\<close>

definition coordinateLabel :: "(real \<Rightarrow> string) \<Rightarrow> latlng \<Rightarrow> string" where
  "coordinateLabel toFixed4 p = toFixed4 (lat p) @ '', '' @ toFixed4 (lng p)"

definition handleMapClick ::
  "(real \<Rightarrow> string) \<Rightarrow> latlng option \<Rightarrow> reverse_result \<Rightarrow> filter_state
     \<Rightarrow> filter_state \<times> event list" where
  "handleMapClick toFixed4 latLng rev_geo s =
     (case latLng of
        None \<Rightarrow> (s, [])
      | Some p \<Rightarrow>
          (case rev_geo of
             ReverseOk name addr \<Rightarrow>
               (s\<lparr>selectedMapLocation :=
                     Some \<lparr>lat = lat p, lng = lng p,
                           address = Some (or_str name (coordinateLabel toFixed4 p))\<rparr>,
                   addressDetails := deriveAddressDetails addr\<rparr>,
                [NominatimReverse (lat p) (lng p)])
           | ReverseFailed \<Rightarrow>
               (s\<lparr>selectedMapLocation :=
                     Some \<lparr>lat = lat p, lng = lng p,
                           address = Some (coordinateLabel toFixed4 p)\<rparr>,
                   addressDetails := emptyAddressDetails\<rparr>,
                [NominatimReverse (lat p) (lng p)])))"

definition confirmMapLocation :: "filter_state \<Rightarrow> filter_state \<times> event list" where
  "confirmMapLocation s =
     (case selectedMapLocation s of
        None \<Rightarrow> (s, [])
      | Some loc \<Rightarrow>
          (s\<lparr>customerLocation := Some loc, showAddressForm := True\<rparr>,
           [OnLocationSet loc]))"

text \<open>
  The click handler of the button "Save and Continue". The form is rendered only when
  a customer location is present.
\<close>

definition saveAndContinue ::
  "unit axios_result \<Rightarrow> availability_response axios_result \<Rightarrow> filter_state
     \<Rightarrow> filter_state \<times> event list" where
  "saveAndContinue saved posted s =
     (let (valid, s1) = validateAddressDetails s in
      if \<not> valid then (s1, [])
      else
        (case customerLocation s of
           None \<Rightarrow> (s1, [])
         | Some loc \<Rightarrow>
             (let (s2, evs2) = saveLocationToBackend saved loc (Some (addressDetails s)) s1;
                  (s3, evs3) = checkServiceAvailability posted loc s2
              in (s3\<lparr>showAddressForm := False, showMap := False,
                     selectedMapLocation := None\<rparr>,
                  evs2 @ evs3))))"

text \<open>
  The effect that runs when the component mounts reads the persisted location back.
  Both of its \<^verbatim>\<open>JSON.parse\<close> calls sit in a \<^verbatim>\<open>try\<close> whose \<^verbatim>\<open>catch\<close> at most writes
  to the console.
\<close>

definition onMount ::
  "bool \<Rightarrow> availability_response axios_result \<Rightarrow> filter_state
     \<Rightarrow> filter_state \<times> event list" where
  "onMount startInMap posted s =
     (case ls_customerLocation s of
        None \<Rightarrow> (if startInMap then s\<lparr>showMap := True\<rparr> else s, [])
      | Some Unparsable \<Rightarrow> (if startInMap then s\<lparr>showMap := True\<rparr> else s, [])
      | Some (Stringified loc) \<Rightarrow>
          (let s1 = s\<lparr>customerLocation := Some loc\<rparr> in
           if startInMap
           then (s1\<lparr>showMap := True, mapCenter := \<lparr>lat = lat loc, lng = lng loc\<rparr>\<rparr>, [])
           else
             (let (s2, evs) = checkServiceAvailability posted loc s1
              in (s2, OnLocationSet loc # evs))))"

definition initialState ::
  "string option \<Rightarrow> stored_location option \<Rightarrow> delivery_address option
     \<Rightarrow> filter_state" where
  \<comment> \<open>the initial values of the \<^verbatim>\<open>useState\<close> calls, over a given local storage\<close>
  "initialState token stored delivery =
     \<lparr>customerLocation = None, isDetectingLocation = False,
      isCheckingAvailability = False, availabilityData = None, error = '''',
      manualAddress = '''', showManualInput = False, showMap = False,
      mapCenter = \<lparr>lat = 20.5937, lng = 78.9629\<rparr>, selectedMapLocation = None,
      showAddressForm = False, addressDetails = emptyAddressDetails,
      addressErrors = [], ls_token = token, ls_customerLocation = stored,
      ls_deliveryAddress = delivery\<rparr>"

definition reload :: "filter_state \<Rightarrow> filter_state" where
  \<comment> \<open>a page reload: the React state starts afresh, local storage stays\<close>
  "reload s = initialState (ls_token s) (ls_customerLocation s) (ls_deliveryAddress s)"

definition userVisibleMessage :: "filter_state \<Rightarrow> bool" where
  \<comment> \<open>the component renders \<^verbatim>\<open>error\<close> whenever it is a non-empty string\<close>
  "userVisibleMessage s = (error s \<noteq> [])"



section \<open>Provider proximity on the map (NearbyWashermenMap)\<close>

text \<open>
  \<^verbatim>\<open>calculateDistance\<close> comes from a utility module and is a parameter. A washerman
  without coordinates is filtered out; each of the others gets a marker and a range
  circle, coloured by \<open>inRange\<close>.
\<close>

definition inRange :: "real \<Rightarrow> washerman \<Rightarrow> bool" where
  "inRange distance w = (distance \<le> or_num (range_w w) 500)"

record range_marker =
  key_m :: string
  position :: latlng
  fillColor :: string
  radius :: real

definition washermanMarker ::
  "(real \<Rightarrow> real \<Rightarrow> real \<Rightarrow> real \<Rightarrow> real) \<Rightarrow> latlng \<Rightarrow> washerman \<Rightarrow> latlng \<Rightarrow> range_marker" where
  "washermanMarker calculateDistance customer w p =
     (let distance = calculateDistance (lat customer) (lng customer) (lat p) (lng p) in
      \<lparr>key_m = id_w w,
       position = \<lparr>lat = lat p, lng = lng p\<rparr>,
       fillColor = (if inRange distance w then ''#10b981'' else ''#6b7280''),
       radius = or_num (range_w w) 500\<rparr>)"

definition washermenMarkers ::
  "(real \<Rightarrow> real \<Rightarrow> real \<Rightarrow> real \<Rightarrow> real) \<Rightarrow> latlng \<Rightarrow> washerman list \<Rightarrow> range_marker list" where
  "washermenMarkers calculateDistance customer ws =
     List.map_filter
       (\<lambda>w. map_option (washermanMarker calculateDistance customer w) (location_w w)) ws"



section \<open>Providers with booking slots (NearbyWashermenWithSlots)\<close>

text \<open>
  \<^verbatim>\<open>selectedDate\<close> is a string, empty while no date is chosen. The two local constants
  \<^verbatim>\<open>isAvailable\<close> and \<^verbatim>\<open>hasSlots\<close> are only used as conditions.
\<close>

definition isAvailableOn :: "string \<Rightarrow> washerman \<Rightarrow> bool" where
  "isAvailableOn selectedDate w =
     (if selectedDate \<noteq> [] then truthy_bool (isAvailable w) else True)"

definition hasSlots :: "string \<Rightarrow> washerman \<Rightarrow> bool" where
  "hasSlots selectedDate w =
     (if selectedDate \<noteq> [] then or_int (totalAvailableSlots w) 0 > 0 else True)"

record washerman_card =
  markerColor :: string
  markerTitle :: string
  dimmed :: bool
  bookNow :: bool

definition washermanCard :: "string \<Rightarrow> washerman \<Rightarrow> washerman_card" where
  "washermanCard selectedDate w =
     (let ok = isAvailableOn selectedDate w \<and> hasSlots selectedDate w in
      \<lparr>markerColor = (if ok then ''#10b981'' else ''#6b7280''),
       markerTitle = name_w w @ '' - '' @ (if ok then ''Available'' else ''Not Available''),
       dimmed = (\<not> isAvailableOn selectedDate w \<or> \<not> hasSlots selectedDate w),
       bookNow = ok\<rparr>)"

definition washermenCards :: "string \<Rightarrow> washerman list \<Rightarrow> washerman_card list" where
  "washermenCards selectedDate ws = map (washermanCard selectedDate) ws"


section \<open>Example values\<close>

definition loc_a :: location where
  "loc_a = \<lparr>lat = 12, lng = 77, address = Some ''MG Road''\<rparr>"

definition loc_b :: location where
  "loc_b = \<lparr>lat = 28, lng = 77, address = Some ''Connaught Place''\<rparr>"

definition details_ok :: address_details where
  "details_ok =
     \<lparr>houseNumber = Some ''12'', street = Some ''MG Road'', landmark = None,
      city = Some ''Bengaluru'', state = Some ''Karnataka'', zip_a = Some ''560001''\<rparr>"

definition state0 :: filter_state where
  "state0 = initialState (Some ''jwt'') None None"

definition state_picked :: filter_state where
  \<comment> \<open>\<open>loc_a\<close> is the confirmed location; \<open>loc_b\<close> has just been picked on the map\<close>
  "state_picked =
     state0\<lparr>customerLocation := Some loc_a,
            ls_customerLocation := Some (Stringified loc_a),
            showMap := True, selectedMapLocation := Some loc_b\<rparr>"

definition state_form :: filter_state where
  \<comment> \<open>the address form is open and filled in completely\<close>
  "state_form =
     state0\<lparr>customerLocation := Some loc_a,
            ls_customerLocation := Some (Stringified loc_a),
            showAddressForm := True, addressDetails := details_ok\<rparr>"

definition state_letters :: filter_state where
  \<comment> \<open>as \<open>state_form\<close>, with six letters typed into the pincode field\<close>
  "state_letters = state_form\<lparr>addressDetails := details_ok\<lparr>zip_a := Some ''abcdef''\<rparr>\<rparr>"

definition state_corrupt :: filter_state where
  \<comment> \<open>a fresh component over a storage entry that does not parse\<close>
  "state_corrupt = initialState (Some ''jwt'') (Some Unparsable) None"

definition hit0 :: geocode_hit where
  "hit0 =
     \<lparr>lat_g = ''51.5237'', lon_g = ''-0.1585'',
      display_name = ''221B Baker Street, London'', address_g = None\<rparr>"

definition parseFloat0 :: "string \<Rightarrow> real" where
  \<comment> \<open>\<^verbatim>\<open>parseFloat\<close> on the two strings of \<open>hit0\<close>\<close>
  "parseFloat0 x = (if x = ''51.5237'' then 51.5237 else if x = ''-0.1585'' then - 0.1585 else 0)"


definition washer0 :: washerman where
  "washer0 =
     \<lparr>id_w = ''w1'', name_w = ''Ravi'', contact = ''9000000000'', range_w = Some 0,
      location_w = Some \<lparr>lat = 12, lng = 77\<rparr>, distance_w = None,
      isAvailable = Some False, availableSlots = None, totalAvailableSlots = Some 0\<rparr>"

definition service0 :: service where
  "service0 =
     \<lparr>id_s = ''s1'', title = ''Wash and Fold'', name_s = ''Wash and Fold'',
      category = ''wash'', description = '''', image = '''',
      options = [\<lparr>id_o = ''o1'', name_o = ''Shirt'', price = 10\<rparr>],
      washerman_s = washer0\<rparr>"

definition response_yes :: availability_response where
  "response_yes =
     \<lparr>success = True, customerLocation_r = loc_a,
      availability = \<lparr>servicesAvailable = True, totalServices = 1, totalWashermen = 1,
                      inRangeWashermen = 1, outOfRangeWashermen = 0\<rparr>,
      services = [service0], message = ''Services available'', suggestion = None\<rparr>"

definition response_no :: availability_response where
  "response_no =
     \<lparr>success = True, customerLocation_r = loc_a,
      availability = \<lparr>servicesAvailable = False, totalServices = 0, totalWashermen = 1,
                      inRangeWashermen = 0, outOfRangeWashermen = 1\<rparr>,
      services = [], message = ''No services'', suggestion = Some ''Try another area''\<rparr>"

section \<open>Properties of the installability helper\<close>

lemma installPWA_no_prompt:
  "deferredPrompt s = None \<Longrightarrow> installPWA outcome s = Inl PromptUnavailable"
  by (simp add: installPWA_def)

lemma installPWA_accepted:
  "deferredPrompt s = Some p \<Longrightarrow>
   installPWA ''accepted'' s =
     Inr (s\<lparr>isInstalled := True, canInstall := False,
            ls_pwa_installed := Some ''true'', deferredPrompt := None\<rparr>)"
  by (simp add: installPWA_def)

lemma installPWA_dismissed:
  "deferredPrompt s = Some p \<Longrightarrow> outcome \<noteq> ''accepted'' \<Longrightarrow>
   installPWA outcome s = Inr (s\<lparr>deferredPrompt := None\<rparr>)"
  by (simp add: installPWA_def)

text \<open>
  Claim C8. \<open>installPWA\<close> fails with \<open>PromptUnavailable\<close> whenever no prompt has been
  captured. With a captured prompt it returns a state in which the prompt is gone, so
  that a second call fails with \<open>PromptUnavailable\<close> whatever the user would answer; if
  the user accepted, the app is marked installed and \<^verbatim>\<open>'pwa-installed'\<close> is persisted
  as \<^verbatim>\<open>'true'\<close>; if the user dismissed, the installed flag, the standalone flag, the
  \<^verbatim>\<open>canInstall\<close> flag and the persisted entry are what they were.
\<close>

theorem installPWA_contract:
  "(deferredPrompt s = None \<longrightarrow> installPWA outcome s = Inl PromptUnavailable) \<and>
   (deferredPrompt s \<noteq> None \<longrightarrow>
      (\<exists>s'. installPWA outcome s = Inr s' \<and>
            deferredPrompt s' = None \<and>
            installPWA outcome' s' = Inl PromptUnavailable \<and>
            (outcome = ''accepted'' \<longrightarrow>
               isInstalled s' \<and> ls_pwa_installed s' = Some ''true'') \<and>
            (outcome \<noteq> ''accepted'' \<longrightarrow>
               isInstalled s' = isInstalled s \<and>
               isStandalone s' = isStandalone s \<and>
               canInstall s' = canInstall s \<and>
               ls_pwa_installed s' = ls_pwa_installed s)))"
proof (cases "deferredPrompt s")
  case None
  then show ?thesis by (simp add: installPWA_no_prompt)
next
  case (Some p)
  show ?thesis
  proof (cases "outcome = ''accepted''")
    case True
    with Some show ?thesis
      by (simp add: installPWA_accepted installPWA_no_prompt)
  next
    case False
    with Some show ?thesis
      by (simp add: installPWA_dismissed installPWA_no_prompt)
  qed
qed

theorem installPWA_contract_witness:
  "deferredPrompt (pwa_example\<lparr>deferredPrompt := None\<rparr>) = None \<and>
   installPWA ''accepted'' (pwa_example\<lparr>deferredPrompt := None\<rparr>) = Inl PromptUnavailable \<and>
   deferredPrompt pwa_example \<noteq> None \<and>
   (\<exists>s'. installPWA ''accepted'' pwa_example = Inr s' \<and>
         installPWA ''accepted'' s' = Inl PromptUnavailable \<and>
         isInstalled s' \<and> ls_pwa_installed s' = Some ''true'') \<and>
   ''dismissed'' \<noteq> ''accepted'' \<and>
   (\<exists>s'. installPWA ''dismissed'' pwa_example = Inr s' \<and>
         installPWA ''accepted'' s' = Inl PromptUnavailable \<and>
         \<not> isInstalled s' \<and> ls_pwa_installed s' = None)"
  using installPWA_contract [of "pwa_example\<lparr>deferredPrompt := None\<rparr>" "''accepted''"]
        installPWA_contract [of pwa_example "''accepted''" "''accepted''"]
        installPWA_contract [of pwa_example "''dismissed''" "''accepted''"]
  by (auto simp add: pwa_example_def)



section \<open>Properties of the availability check\<close>

lemma token_cases:
  "truthy (ls_token s) \<Longrightarrow> \<exists>token. ls_token s = Some token \<and> token \<noteq> []"
  by (cases "ls_token s") (simp_all add: truthy_def)

lemma check_fulfilled:
  "ls_token s = Some token \<Longrightarrow> token \<noteq> [] \<Longrightarrow>
   checkServiceAvailability (Fulfilled d) loc s =
     (s\<lparr>isCheckingAvailability := False, error := '''', availabilityData := Some d\<rparr>,
      [PostCheckAvailability token loc,
       if servicesAvailable (availability d) then OnServicesFound (services d) else OnNoServices])"
  by (simp add: checkServiceAvailability_def)

lemma check_rejected_status:
  "ls_token s = Some token \<Longrightarrow> token \<noteq> [] \<Longrightarrow>
   checkServiceAvailability (RejectedStatus status msg) loc s =
     (s\<lparr>isCheckingAvailability := False,
        error := or_str msg ''Failed to check service availability''\<rparr>,
      [PostCheckAvailability token loc, OnNoServices])"
  by (simp add: checkServiceAvailability_def)

lemma check_rejected_no_response:
  "ls_token s = Some token \<Longrightarrow> token \<noteq> [] \<Longrightarrow>
   checkServiceAvailability RejectedNoResponse loc s =
     (s\<lparr>isCheckingAvailability := False,
        error := ''Failed to check service availability''\<rparr>,
      [PostCheckAvailability token loc, OnNoServices])"
  by (simp add: checkServiceAvailability_def)

lemma check_no_token:
  "\<not> truthy (ls_token s) \<Longrightarrow>
   checkServiceAvailability posted loc s =
     (s\<lparr>isCheckingAvailability := False,
        error := ''Please log in to check service availability''\<rparr>, [])"
  by (cases "ls_token s") (simp_all add: checkServiceAvailability_def truthy_def)

text \<open>
  Claim C1. When a token is present and the backend answers the availability request
  successfully, the callbacks invoked are exactly one: \<open>OnServicesFound\<close> with the
  \<^verbatim>\<open>services\<close> list of the answer if its \<^verbatim>\<open>servicesAvailable\<close> flag is true, and
  \<open>OnNoServices\<close> if it is false; never both.
\<close>

theorem checkServiceAvailability_success_callbacks:
  "truthy (ls_token s) \<Longrightarrow>
   callbacks (snd (checkServiceAvailability (Fulfilled d) loc s)) =
     (if servicesAvailable (availability d)
      then [OnServicesFound (services d)] else [OnNoServices])"
proof -
  assume "truthy (ls_token s)"
  then obtain token where "ls_token s = Some token" "token \<noteq> []"
    using token_cases by blast
  then show ?thesis
    by (simp add: check_fulfilled callbacks_def)
qed

theorem checkServiceAvailability_success_callbacks_witness:
  "truthy (ls_token state0) \<and>
   callbacks (snd (checkServiceAvailability (Fulfilled response_yes) loc_a state0)) =
     [OnServicesFound [service0]] \<and>
   callbacks (snd (checkServiceAvailability (Fulfilled response_no) loc_a state0)) =
     [OnNoServices]"
  using checkServiceAvailability_success_callbacks [of state0 response_yes loc_a]
        checkServiceAvailability_success_callbacks [of state0 response_no loc_a]
  by (simp add: truthy_def state0_def initialState_def response_yes_def response_no_def)

text \<open>
  Claim C2, as stated, fails: the handler never looks at the HTTP status. A 401 and a
  500 without a message in the body leave the same state and the same trace, with the
  generic message; and a failure whose body carries a message shows that message, not
  the generic one.
\<close>

theorem checkServiceAvailability_status_counterexample:
  "checkServiceAvailability (RejectedStatus 401 None) loc_a state0 =
     checkServiceAvailability (RejectedStatus 500 None) loc_a state0 \<and>
   error (fst (checkServiceAvailability (RejectedStatus 401 None) loc_a state0)) =
     ''Failed to check service availability'' \<and>
   error (fst (checkServiceAvailability (RejectedStatus 500 (Some ''Database is down''))
     loc_a state0)) = ''Database is down''"
  by (simp add: checkServiceAvailability_def state0_def initialState_def or_str_def)

text \<open>
  Claim C2, amended. Without a token the check sets the message
  \<^verbatim>\<open>'Please log in to check service availability'\<close> and does nothing to the outside: no
  request, no callback. With a token, a failed request sets the message the backend
  sent if it sent a non-empty one and \<^verbatim>\<open>'Failed to check service availability'\<close>
  otherwise, whatever the HTTP status, and invokes the "no services" callback exactly
  once; the same holds when there is no response at all.
\<close>

theorem checkServiceAvailability_failures:
  "(\<not> truthy (ls_token s) \<longrightarrow>
      snd (checkServiceAvailability posted loc s) = [] \<and>
      error (fst (checkServiceAvailability posted loc s)) =
        ''Please log in to check service availability'') \<and>
   (truthy (ls_token s) \<longrightarrow>
      checkServiceAvailability (RejectedStatus status msg) loc s =
        checkServiceAvailability (RejectedStatus status' msg) loc s \<and>
      error (fst (checkServiceAvailability (RejectedStatus status msg) loc s)) =
        or_str msg ''Failed to check service availability'' \<and>
      callbacks (snd (checkServiceAvailability (RejectedStatus status msg) loc s)) =
        [OnNoServices] \<and>
      error (fst (checkServiceAvailability RejectedNoResponse loc s)) =
        ''Failed to check service availability'' \<and>
      callbacks (snd (checkServiceAvailability RejectedNoResponse loc s)) =
        [OnNoServices])"
proof (cases "truthy (ls_token s)")
  case False
  then show ?thesis by (simp add: check_no_token)
next
  case True
  then obtain token where t: "ls_token s = Some token" "token \<noteq> []"
    using token_cases by blast
  from True show ?thesis
    by (simp add: t check_rejected_status check_rejected_no_response callbacks_def)
qed

theorem checkServiceAvailability_failures_witness:
  "\<not> truthy (ls_token (state0\<lparr>ls_token := None\<rparr>)) \<and>
   snd (checkServiceAvailability (Fulfilled response_yes) loc_a
     (state0\<lparr>ls_token := None\<rparr>)) = [] \<and>
   error (fst (checkServiceAvailability (Fulfilled response_yes) loc_a
     (state0\<lparr>ls_token := None\<rparr>))) = ''Please log in to check service availability'' \<and>
   truthy (ls_token state0) \<and>
   error (fst (checkServiceAvailability (RejectedStatus 401 (Some ''Token expired''))
     loc_a state0)) = ''Token expired'' \<and>
   error (fst (checkServiceAvailability (RejectedStatus 503 None) loc_a state0)) =
     ''Failed to check service availability'' \<and>
   callbacks (snd (checkServiceAvailability (RejectedStatus 503 None) loc_a state0)) =
     [OnNoServices]"
  using checkServiceAvailability_failures
          [of "state0\<lparr>ls_token := None\<rparr>" "Fulfilled response_yes" loc_a]
        checkServiceAvailability_failures
          [of state0 _ loc_a 401 "Some ''Token expired''"]
        checkServiceAvailability_failures
          [of state0 _ loc_a 503 None]
  by (simp add: truthy_def state0_def initialState_def or_str_def)

text \<open>
  Claim C7. Running the check a second time, from the state the first run left, with
  the same location and the same answer of the backend, returns the same state and
  the same trace as the first run. And a successful answer replaces the stored
  availability data whatever an earlier run had stored.
\<close>

theorem checkServiceAvailability_idempotent:
  "checkServiceAvailability posted loc (fst (checkServiceAvailability posted loc s)) =
     checkServiceAvailability posted loc s \<and>
   availabilityData (fst (checkServiceAvailability (Fulfilled d) loc
       (fst (checkServiceAvailability posted' loc' s)))) =
     availabilityData (fst (checkServiceAvailability (Fulfilled d) loc s))"
proof (cases "truthy (ls_token s)")
  case False
  then show ?thesis by (simp add: check_no_token)
next
  case True
  then obtain token where t: "ls_token s = Some token" "token \<noteq> []"
    using token_cases by blast
  have "checkServiceAvailability posted loc (fst (checkServiceAvailability posted loc s)) =
     checkServiceAvailability posted loc s"
    by (cases posted)
       (simp_all add: t check_fulfilled check_rejected_status check_rejected_no_response)
  moreover have "availabilityData (fst (checkServiceAvailability (Fulfilled d) loc
       (fst (checkServiceAvailability posted' loc' s)))) =
     availabilityData (fst (checkServiceAvailability (Fulfilled d) loc s))"
    by (cases posted')
       (simp_all add: t check_fulfilled check_rejected_status check_rejected_no_response)
  ultimately show ?thesis by simp
qed

theorem checkServiceAvailability_idempotent_witness:
  "fst (checkServiceAvailability (Fulfilled response_yes) loc_a
     (fst (checkServiceAvailability (Fulfilled response_yes) loc_a state0))) =
     state0\<lparr>availabilityData := Some response_yes\<rparr> \<and>
   callbacks (snd (checkServiceAvailability (Fulfilled response_yes) loc_a
     (fst (checkServiceAvailability (Fulfilled response_yes) loc_a state0)))) =
     [OnServicesFound [service0]]"
  using checkServiceAvailability_idempotent
          [of "Fulfilled response_yes" loc_a state0 response_yes "Fulfilled response_yes" loc_a]
  by (simp add: checkServiceAvailability_def state0_def initialState_def response_yes_def callbacks_def)


section \<open>Properties of the two provider views\<close>

lemma washermenMarkers_keys:
  "map key_m (washermenMarkers calculateDistance customer ws) =
     map id_w (filter (\<lambda>w. location_w w \<noteq> None) ws)"
proof (induction ws)
  case Nil
  show ?case by (simp add: washermenMarkers_def List.map_filter_simps)
next
  case (Cons w ws)
  then show ?case
    by (cases "location_w w")
       (simp_all add: washermenMarkers_def List.map_filter_simps washermanMarker_def Let_def)
qed




lemma washermanCard_no_date:
  "washermanCard [] w =
     \<lparr>markerColor = ''#10b981'', markerTitle = name_w w @ '' - Available'',
      dimmed = False, bookNow = True\<rparr>"
  by (simp add: washermanCard_def isAvailableOn_def hasSlots_def)

lemma washermanCard_with_date:
  "selectedDate \<noteq> [] \<Longrightarrow>
   bookNow (washermanCard selectedDate w) =
     (isAvailable w = Some True \<and>
      (case totalAvailableSlots w of None \<Rightarrow> False | Some n \<Rightarrow> 0 < n))"
  by (cases "isAvailable w"; cases "totalAvailableSlots w")
     (auto simp add: washermanCard_def isAvailableOn_def hasSlots_def truthy_bool_def
        or_int_def Let_def)

lemma washermanCard_colour_dimmed:
  "dimmed (washermanCard selectedDate w) = (\<not> bookNow (washermanCard selectedDate w)) \<and>
   (markerColor (washermanCard selectedDate w) = ''#10b981'' \<longleftrightarrow>
      bookNow (washermanCard selectedDate w))"
  by (simp add: washermanCard_def Let_def)

text \<open>
  Claim C10. While no date is selected every washerman is rendered as available: green
  marker, title "Available", not dimmed, with the "Book Now" button, whatever its
  \<^verbatim>\<open>isAvailable\<close> flag and slot count are; the rendered list has exactly one such card
  for each fetched washerman, in order. Once a date is selected a washerman is
  rendered as available exactly when its flag is true and its slot count is
  positive, card by card along the fetched list.
\<close>

theorem washermanCard_without_date:
  "(selectedDate = [] \<longrightarrow>
      washermanCard selectedDate w =
        \<lparr>markerColor = ''#10b981'', markerTitle = name_w w @ '' - Available'',
         dimmed = False, bookNow = True\<rparr> \<and>
      washermenCards selectedDate ws =
        map (\<lambda>w. \<lparr>markerColor = ''#10b981'', markerTitle = name_w w @ '' - Available'',
                  dimmed = False, bookNow = True\<rparr>) ws) \<and>
   (selectedDate \<noteq> [] \<longrightarrow>
      (bookNow (washermanCard selectedDate w) \<longleftrightarrow>
         isAvailable w = Some True \<and>
         (case totalAvailableSlots w of None \<Rightarrow> False | Some n \<Rightarrow> 0 < n)) \<and>
      dimmed (washermanCard selectedDate w) = (\<not> bookNow (washermanCard selectedDate w)) \<and>
      (markerColor (washermanCard selectedDate w) = ''#10b981'' \<longleftrightarrow>
         bookNow (washermanCard selectedDate w)) \<and>
      map bookNow (washermenCards selectedDate ws) =
        map (\<lambda>w. isAvailable w = Some True \<and>
                 (case totalAvailableSlots w of None \<Rightarrow> False | Some n \<Rightarrow> 0 < n)) ws)"
proof (cases "selectedDate = []")
  case True
  then show ?thesis
    by (simp add: washermenCards_def washermanCard_no_date)
next
  case False
  then show ?thesis
    by (simp add: washermenCards_def washermanCard_with_date washermanCard_colour_dimmed)
qed

theorem washermanCard_without_date_witness:
  "bookNow (washermanCard [] washer0) \<and> \<not> dimmed (washermanCard [] washer0) \<and>
   markerColor (washermanCard [] washer0) = ''#10b981'' \<and>
   isAvailable washer0 = Some False \<and> totalAvailableSlots washer0 = Some 0 \<and>
   map bookNow (washermenCards [] [washer0, washer0\<lparr>isAvailable := None\<rparr>]) =
     [True, True] \<and>
   ''2026-01-15'' \<noteq> [] \<and>
   \<not> bookNow (washermanCard ''2026-01-15'' washer0) \<and>
   dimmed (washermanCard ''2026-01-15'' washer0) \<and>
   bookNow (washermanCard ''2026-01-15''
     (washer0\<lparr>isAvailable := Some True, totalAvailableSlots := Some 3\<rparr>)) \<and>
   map bookNow (washermenCards ''2026-01-15''
     [washer0, washer0\<lparr>isAvailable := Some True, totalAvailableSlots := Some 3\<rparr>]) =
     [False, True]"
  using washermanCard_without_date
          [of "[]" washer0 "[washer0, washer0\<lparr>isAvailable := None\<rparr>]"]
        washermanCard_without_date
          [of "''2026-01-15''" washer0
              "[washer0, washer0\<lparr>isAvailable := Some True, totalAvailableSlots := Some 3\<rparr>]"]
        washermanCard_without_date [of "''2026-01-15''"
          "washer0\<lparr>isAvailable := Some True, totalAvailableSlots := Some 3\<rparr>"]
  by (simp add: washer0_def)


section \<open>Properties of the location state\<close>

lemma detectCurrentLocation_located:
  "customerLocation (fst (detectCurrentLocation (Located loc) rev_geo s)) = Some loc \<and>
   ls_customerLocation (fst (detectCurrentLocation (Located loc) rev_geo s)) =
     Some (Stringified loc)"
  by (cases rev_geo) (simp_all add: detectCurrentLocation_def Let_def)

lemma handleManualAddressSubmit_found:
  "trim (manualAddress s) \<noteq> [] \<Longrightarrow>
   handleManualAddressSubmit parseFloat (SearchOk (result # others)) s =
     (let loc = \<lparr>lat = parseFloat (lat_g result), lng = parseFloat (lon_g result),
                 address = Some (display_name result)\<rparr>
      in (s\<lparr>isCheckingAvailability := True, error := '''',
            customerLocation := Some loc,
            addressDetails := deriveAddressDetails (address_g result),
            showAddressForm := True, ls_customerLocation := Some (Stringified loc),
            showManualInput := False\<rparr>,
          [NominatimSearch (manualAddress s), OnLocationSet loc]))"
  by (simp add: handleManualAddressSubmit_def Let_def)

lemma handleManualAddressSubmit_not_found:
  "trim (manualAddress s) \<noteq> [] \<Longrightarrow>
   handleManualAddressSubmit parseFloat (SearchOk []) s =
     (s\<lparr>isCheckingAvailability := False,
        error := ''Address not found. Please try a different address.''\<rparr>,
      [NominatimSearch (manualAddress s)])"
  by (simp add: handleManualAddressSubmit_def Let_def)

lemma confirmMapLocation_storage:
  "ls_customerLocation (fst (confirmMapLocation s)) = ls_customerLocation s"
  by (cases "selectedMapLocation s") (simp_all add: confirmMapLocation_def)

text \<open>
  Claim C4 does not hold of the code. The state has one slot for the confirmed
  location, and geolocation detection and manual entry write the new location to both
  the state and the storage entry (\<open>detectCurrentLocation_located\<close>,
  \<open>handleManualAddressSubmit_found\<close>). Confirming a map pick writes the state only
  (\<open>confirmMapLocation_storage\<close>): with \<open>loc_a\<close> confirmed and stored and \<open>loc_b\<close>
  picked on the map, the confirmed location becomes \<open>loc_b\<close> while the storage entry
  still holds \<open>loc_a\<close>, and after a reload the component comes back with \<open>loc_a\<close>.
\<close>

theorem confirmMapLocation_stale_storage:
  "customerLocation state_picked = Some loc_a \<and>
   ls_customerLocation state_picked = Some (Stringified loc_a) \<and>
   selectedMapLocation state_picked = Some loc_b \<and>
   loc_b \<noteq> loc_a \<and>
   customerLocation (fst (confirmMapLocation state_picked)) = Some loc_b \<and>
   ls_customerLocation (fst (confirmMapLocation state_picked)) =
     Some (Stringified loc_a) \<and>
   customerLocation (fst (onMount False (Fulfilled response_yes)
     (reload (fst (confirmMapLocation state_picked))))) = Some loc_a"
  by (simp add: confirmMapLocation_def state_picked_def state0_def initialState_def
      loc_a_def loc_b_def onMount_def reload_def checkServiceAvailability_def
      response_yes_def)

text \<open>
  Claim C6. For a submission whose text is not blank: if the geocoder returns no
  result, the message is "Address not found", no callback is invoked, and the
  confirmed location is what it was, in the state and in storage; if it returns at
  least one result, the confirmed location, in the state and in storage, is the one
  built from the first result, and its address is that result's \<^verbatim>\<open>display_name\<close>.
\<close>

theorem handleManualAddressSubmit_geocoding:
  "trim (manualAddress s) \<noteq> [] \<Longrightarrow>
   error (fst (handleManualAddressSubmit parseFloat (SearchOk []) s)) =
     ''Address not found. Please try a different address.'' \<and>
   customerLocation (fst (handleManualAddressSubmit parseFloat (SearchOk []) s)) =
     customerLocation s \<and>
   ls_customerLocation (fst (handleManualAddressSubmit parseFloat (SearchOk []) s)) =
     ls_customerLocation s \<and>
   callbacks (snd (handleManualAddressSubmit parseFloat (SearchOk []) s)) = [] \<and>
   customerLocation (fst (handleManualAddressSubmit parseFloat (SearchOk (result # others)) s)) =
     Some \<lparr>lat = parseFloat (lat_g result), lng = parseFloat (lon_g result),
           address = Some (display_name result)\<rparr> \<and>
   ls_customerLocation (fst (handleManualAddressSubmit parseFloat (SearchOk (result # others)) s)) =
     Some (Stringified \<lparr>lat = parseFloat (lat_g result), lng = parseFloat (lon_g result),
                        address = Some (display_name result)\<rparr>) \<and>
   callbacks (snd (handleManualAddressSubmit parseFloat (SearchOk (result # others)) s)) =
     [OnLocationSet \<lparr>lat = parseFloat (lat_g result), lng = parseFloat (lon_g result),
                     address = Some (display_name result)\<rparr>]"
  by (simp add: handleManualAddressSubmit_found handleManualAddressSubmit_not_found
      callbacks_def Let_def)

theorem handleManualAddressSubmit_geocoding_witness:
  "trim (manualAddress (state_picked\<lparr>manualAddress := ''221B Baker Street''\<rparr>)) \<noteq> [] \<and>
   error (fst (handleManualAddressSubmit parseFloat0 (SearchOk [])
      (state_picked\<lparr>manualAddress := ''221B Baker Street''\<rparr>))) =
     ''Address not found. Please try a different address.'' \<and>
   customerLocation (fst (handleManualAddressSubmit parseFloat0 (SearchOk [])
      (state_picked\<lparr>manualAddress := ''221B Baker Street''\<rparr>))) = Some loc_a \<and>
   customerLocation (fst (handleManualAddressSubmit parseFloat0 (SearchOk [hit0])
      (state_picked\<lparr>manualAddress := ''221B Baker Street''\<rparr>))) =
     Some \<lparr>lat = 51.5237, lng = - 0.1585, address = Some ''221B Baker Street, London''\<rparr>"
  using handleManualAddressSubmit_geocoding
    [of "state_picked\<lparr>manualAddress := ''221B Baker Street''\<rparr>" parseFloat0 hit0 "[]"]
  by (simp add: state_picked_def state0_def initialState_def hit0_def trim_def
      isWhitespace_def parseFloat0_def)


section \<open>Properties of address confirmation\<close>

lemma newErrors_empty_iff:
  "newErrors d = [] \<longleftrightarrow>
     \<not> blank (houseNumber d) \<and> \<not> blank (street d) \<and> \<not> blank (city d) \<and>
     \<not> blank (state d) \<and> \<not> blank (zip_a d) \<and> map_option length (zip_a d) = Some 6"
  by (simp add: newErrors_def)

lemma validateAddressDetails_rejects:
  "blank (houseNumber (addressDetails s)) \<or> blank (street (addressDetails s)) \<or>
   blank (city (addressDetails s)) \<or> blank (state (addressDetails s)) \<or>
   map_option length (zip_a (addressDetails s)) \<noteq> Some 6 \<Longrightarrow>
   \<not> fst (validateAddressDetails s) \<and>
   addressErrors (snd (validateAddressDetails s)) \<noteq> [] \<and>
   saveAndContinue saved posted s = (s\<lparr>addressErrors := newErrors (addressDetails s)\<rparr>, [])"
  using newErrors_empty_iff [of "addressDetails s"]
  by (auto simp add: validateAddressDetails_def saveAndContinue_def Let_def)

text \<open>
  Claim C5 does not hold of the code. An address with a blank mandatory field, or with
  a pincode whose length is not 6, is rejected with an entry in \<^verbatim>\<open>addressErrors\<close> and
  nothing is sent (\<open>validateAddressDetails_rejects\<close>). But the pincode is only
  measured, never inspected: with the six letters \<^verbatim>\<open>abcdef\<close> in the pincode field
  validation succeeds, no error is attached, the save request is issued and the
  letters are persisted as the delivery address's pincode, although the error message
  of the same check asks for a "Valid 6-digit pincode".
\<close>

theorem saveAndContinue_letters_pincode:
  "zip_a (addressDetails state_letters) = Some ''abcdef'' \<and>
   fst (validateAddressDetails state_letters) \<and>
   addressErrors (fst (saveAndContinue (Fulfilled ()) (Fulfilled response_yes) state_letters)) = [] \<and>
   filter isSaveCall
     (snd (saveAndContinue (Fulfilled ()) (Fulfilled response_yes) state_letters)) =
     [PostUserLocation ''jwt'' (saveBody loc_a (Some (addressDetails state_letters)))] \<and>
   map_option pincode (ls_deliveryAddress
     (fst (saveAndContinue (Fulfilled ()) (Fulfilled response_yes) state_letters))) =
     Some ''abcdef''"
  by (simp add: validateAddressDetails_def saveAndContinue_def state_letters_def
      state_form_def state0_def initialState_def details_ok_def newErrors_def blank_def
      trim_def isWhitespace_def saveLocationToBackend_def checkServiceAvailability_def
      detailedAddress_def or_str_def Let_def)


section \<open>Which failures reach the user\<close>

lemma or_str_nonempty: "d \<noteq> [] \<Longrightarrow> or_str v d \<noteq> []"
  by (cases v) (simp_all add: or_str_def)

lemma detect_failure_visible:
  "userVisibleMessage (fst (detectCurrentLocation (LocationError msg) rev_geo s))"
  by (simp add: detectCurrentLocation_def userVisibleMessage_def or_str_nonempty Let_def)

lemma manual_failed_visible:
  "userVisibleMessage (fst (handleManualAddressSubmit parseFloat SearchFailed s))"
  by (simp add: handleManualAddressSubmit_def userVisibleMessage_def Let_def)

lemma manual_not_found_visible:
  "userVisibleMessage (fst (handleManualAddressSubmit parseFloat (SearchOk []) s))"
  by (simp add: handleManualAddressSubmit_def userVisibleMessage_def Let_def)

lemma check_rejected_visible:
  "userVisibleMessage (fst (checkServiceAvailability (RejectedStatus status msg) loc s))"
  by (cases "ls_token s")
     (simp_all add: checkServiceAvailability_def userVisibleMessage_def or_str_nonempty
        Let_def)

lemma check_no_response_visible:
  "userVisibleMessage (fst (checkServiceAvailability RejectedNoResponse loc s))"
  by (cases "ls_token s")
     (simp_all add: checkServiceAvailability_def userVisibleMessage_def Let_def)

lemma check_no_token_visible:
  "\<not> truthy (ls_token s) \<Longrightarrow>
   userVisibleMessage (fst (checkServiceAvailability posted loc s))"
  by (simp add: check_no_token userVisibleMessage_def)

lemma enrichment_failure_absorbed:
  "error (fst (detectCurrentLocation (Located loc) ReverseFailed s)) = [] \<and>
   addressDetails (fst (detectCurrentLocation (Located loc) ReverseFailed s)) =
     emptyAddressDetails \<and>
   customerLocation (fst (detectCurrentLocation (Located loc) ReverseFailed s)) = Some loc"
  by (simp add: detectCurrentLocation_def Let_def)

lemma map_pick_failure_absorbed:
  "error (fst (handleMapClick toFixed4 (Some p) ReverseFailed s)) = error s \<and>
   addressDetails (fst (handleMapClick toFixed4 (Some p) ReverseFailed s)) =
     emptyAddressDetails \<and>
   selectedMapLocation (fst (handleMapClick toFixed4 (Some p) ReverseFailed s)) =
     Some \<lparr>lat = lat p, lng = lng p, address = Some (coordinateLabel toFixed4 p)\<rparr>"
  by (simp add: handleMapClick_def)

lemma save_failure_absorbed:
  "saved \<noteq> Fulfilled () \<Longrightarrow> fst (saveLocationToBackend saved loc details s) = s"
  by (cases saved; cases "ls_token s") (simp_all add: saveLocationToBackend_def)

lemma saveLocationToBackend_token:
  "ls_token (fst (saveLocationToBackend saved loc details s)) = ls_token s"
  by (cases saved; cases "ls_token s"; cases details) (simp_all add: saveLocationToBackend_def)

lemma check_error_by_token:
  "ls_token s = ls_token s' \<Longrightarrow>
   error (fst (checkServiceAvailability posted loc s)) =
     error (fst (checkServiceAvailability posted loc s'))"
  by (cases "ls_token s'"; cases posted) (simp_all add: checkServiceAvailability_def Let_def)

lemma saveAndContinue_error_ignores_save:
  "error (fst (saveAndContinue saved posted s)) = error (fst (saveAndContinue saved' posted s))"
proof (cases "newErrors (addressDetails s) = []")
  case False
  then show ?thesis
    by (simp add: saveAndContinue_def validateAddressDetails_def Let_def)
next
  case True
  show ?thesis
  proof (cases "customerLocation s")
    case None
    with True show ?thesis
      by (simp add: saveAndContinue_def validateAddressDetails_def Let_def)
  next
    case (Some loc)
    let ?s1 = "s\<lparr>addressErrors := []\<rparr>"
    let ?d = "Some (addressDetails s)"
    have "ls_token (fst (saveLocationToBackend saved loc ?d ?s1)) =
          ls_token (fst (saveLocationToBackend saved' loc ?d ?s1))"
      by (simp add: saveLocationToBackend_token)
    then have "error (fst (checkServiceAvailability posted loc
                 (fst (saveLocationToBackend saved loc ?d ?s1)))) =
               error (fst (checkServiceAvailability posted loc
                 (fst (saveLocationToBackend saved' loc ?d ?s1))))"
      by (rule check_error_by_token)
    with True Some show ?thesis
      by (simp add: saveAndContinue_def validateAddressDetails_def Let_def split_beta)
  qed
qed

lemma saveAndContinue_after_failed_save:
  "ls_token s = Some token \<Longrightarrow> token \<noteq> [] \<Longrightarrow>
   newErrors (addressDetails s) = [] \<Longrightarrow> customerLocation s = Some loc \<Longrightarrow>
   saved \<noteq> Fulfilled () \<Longrightarrow>
   saveAndContinue saved posted s =
     ((fst (checkServiceAvailability posted loc (s\<lparr>addressErrors := []\<rparr>)))
        \<lparr>showAddressForm := False, showMap := False, selectedMapLocation := None\<rparr>,
      PostUserLocation token (saveBody loc (Some (addressDetails s))) #
      snd (checkServiceAvailability posted loc (s\<lparr>addressErrors := []\<rparr>)))"
  by (cases saved)
     (simp_all add: saveAndContinue_def validateAddressDetails_def saveLocationToBackend_def
        Let_def split_beta)

lemma saveLocationToBackend_no_token:
  "\<not> truthy (ls_token s) \<Longrightarrow> saveLocationToBackend saved loc details s = (s, [])"
  by (cases "ls_token s") (simp_all add: saveLocationToBackend_def truthy_def)

lemma onMount_unparsable:
  "ls_customerLocation s = Some Unparsable \<Longrightarrow>
   onMount startInMap posted s = (if startInMap then s\<lparr>showMap := True\<rparr> else s, [])"
  by (simp add: onMount_def)

lemma manual_blank_visible:
  "trim (manualAddress s) = [] \<Longrightarrow>
   userVisibleMessage (fst (handleManualAddressSubmit parseFloat found s)) \<and>
   snd (handleManualAddressSubmit parseFloat found s) = []"
  by (simp add: handleManualAddressSubmit_def userVisibleMessage_def)

lemma saveAndContinue_invalid:
  "newErrors (addressDetails s) \<noteq> [] \<Longrightarrow>
   addressErrors (fst (saveAndContinue saved posted s)) \<noteq> [] \<and>
   snd (saveAndContinue saved posted s) = []"
  by (simp add: saveAndContinue_def validateAddressDetails_def Let_def)

text \<open>
  Claim C9, as stated, fails: with a complete address and a token, "Save and Continue"
  issues the save request, the request fails, and the handler ends with an empty
  message and no field error. The failure is only written to the console.
\<close>

theorem saveAndContinue_save_failure_counterexample:
  "filter isSaveCall
     (snd (saveAndContinue RejectedNoResponse (Fulfilled response_yes) state_form)) =
     [PostUserLocation ''jwt'' (saveBody loc_a (Some details_ok))] \<and>
   \<not> userVisibleMessage
       (fst (saveAndContinue RejectedNoResponse (Fulfilled response_yes) state_form)) \<and>
   addressErrors
       (fst (saveAndContinue RejectedNoResponse (Fulfilled response_yes) state_form)) = []"
  by (simp add: validateAddressDetails_def saveAndContinue_def
      state_form_def state0_def initialState_def details_ok_def newErrors_def blank_def
      trim_def isWhitespace_def saveLocationToBackend_def checkServiceAvailability_def
      userVisibleMessage_def Let_def)

text \<open>
  Claim C9, amended. Of the failures the component meets in its handlers and in its
  mount effect, these reach the user. As a non-empty message: a failed geolocation
  detection; a manual address that is blank, that the geocoder cannot process, or for
  which it returns no result; an availability check without a token, with a rejected
  request or with no response. As field messages, with nothing sent: an address form
  that does not validate. These are absorbed without a message: a failed
  address-detail enrichment (the reverse geocoding after a successful detection or
  after a click on the map), which leaves the address details blank; a failed save of
  the location to the backend, which leaves the state as it was, after which "Save and
  Continue" goes on as after any save: it runs the availability check on the same
  location, closes the form, and ends with the message the check alone decides (the
  save is skipped, also without a message, when there is no token); and a persisted
  location that does not parse when the component mounts, which is ignored, so that
  the component starts without a confirmed location and invokes no callback.
\<close>

theorem failures_surfaced_or_absorbed:
  "userVisibleMessage (fst (detectCurrentLocation (LocationError msg) rev_geo s)) \<and>
   userVisibleMessage (fst (handleManualAddressSubmit parseFloat SearchFailed s)) \<and>
   userVisibleMessage (fst (handleManualAddressSubmit parseFloat (SearchOk []) s)) \<and>
   (trim (manualAddress s) = [] \<longrightarrow>
      userVisibleMessage (fst (handleManualAddressSubmit parseFloat found s))) \<and>
   userVisibleMessage (fst (checkServiceAvailability (RejectedStatus status m) loc s)) \<and>
   userVisibleMessage (fst (checkServiceAvailability RejectedNoResponse loc s)) \<and>
   (\<not> truthy (ls_token s) \<longrightarrow>
      userVisibleMessage (fst (checkServiceAvailability posted loc s))) \<and>
   (newErrors (addressDetails s) \<noteq> [] \<longrightarrow>
      addressErrors (fst (saveAndContinue saved posted s)) \<noteq> [] \<and>
      snd (saveAndContinue saved posted s) = []) \<and>
   error (fst (detectCurrentLocation (Located loc) ReverseFailed s)) = [] \<and>
   addressDetails (fst (detectCurrentLocation (Located loc) ReverseFailed s)) =
     emptyAddressDetails \<and>
   error (fst (handleMapClick toFixed4 (Some p) ReverseFailed s)) = error s \<and>
   addressDetails (fst (handleMapClick toFixed4 (Some p) ReverseFailed s)) =
     emptyAddressDetails \<and>
   (saved \<noteq> Fulfilled () \<longrightarrow> fst (saveLocationToBackend saved loc details s) = s) \<and>
   (\<not> truthy (ls_token s) \<longrightarrow> saveLocationToBackend saved loc details s = (s, [])) \<and>
   (ls_token s = Some token \<and> token \<noteq> [] \<and> newErrors (addressDetails s) = [] \<and>
    customerLocation s = Some loc \<and> saved \<noteq> Fulfilled () \<longrightarrow>
      saveAndContinue saved posted s =
        ((fst (checkServiceAvailability posted loc (s\<lparr>addressErrors := []\<rparr>)))
           \<lparr>showAddressForm := False, showMap := False, selectedMapLocation := None\<rparr>,
         PostUserLocation token (saveBody loc (Some (addressDetails s))) #
         snd (checkServiceAvailability posted loc (s\<lparr>addressErrors := []\<rparr>)))) \<and>
   error (fst (saveAndContinue saved posted s)) =
     error (fst (saveAndContinue (Fulfilled ()) posted s)) \<and>
   (ls_customerLocation s = Some Unparsable \<longrightarrow>
      onMount startInMap posted s = (if startInMap then s\<lparr>showMap := True\<rparr> else s, []))"
proof -
  have "userVisibleMessage (fst (detectCurrentLocation (LocationError msg) rev_geo s))"
    by (rule detect_failure_visible)
  moreover have "userVisibleMessage (fst (handleManualAddressSubmit parseFloat SearchFailed s))"
    by (rule manual_failed_visible)
  moreover have "userVisibleMessage (fst (handleManualAddressSubmit parseFloat (SearchOk []) s))"
    by (rule manual_not_found_visible)
  moreover have "trim (manualAddress s) = [] \<longrightarrow>
      userVisibleMessage (fst (handleManualAddressSubmit parseFloat found s))"
    by (simp add: manual_blank_visible)
  moreover have "userVisibleMessage (fst (checkServiceAvailability (RejectedStatus status m) loc s))"
    by (rule check_rejected_visible)
  moreover have "userVisibleMessage (fst (checkServiceAvailability RejectedNoResponse loc s))"
    by (rule check_no_response_visible)
  moreover have "\<not> truthy (ls_token s) \<longrightarrow>
      userVisibleMessage (fst (checkServiceAvailability posted loc s))"
    by (simp add: check_no_token_visible)
  moreover have "newErrors (addressDetails s) \<noteq> [] \<longrightarrow>
      addressErrors (fst (saveAndContinue saved posted s)) \<noteq> [] \<and>
      snd (saveAndContinue saved posted s) = []"
    using saveAndContinue_invalid [of s saved posted] by blast
  moreover have "saved \<noteq> Fulfilled () \<longrightarrow> fst (saveLocationToBackend saved loc details s) = s"
    by (simp add: save_failure_absorbed)
  moreover have "\<not> truthy (ls_token s) \<longrightarrow> saveLocationToBackend saved loc details s = (s, [])"
    by (simp add: saveLocationToBackend_no_token)
  moreover have "ls_token s = Some token \<and> token \<noteq> [] \<and> newErrors (addressDetails s) = [] \<and>
    customerLocation s = Some loc \<and> saved \<noteq> Fulfilled () \<longrightarrow>
      saveAndContinue saved posted s =
        ((fst (checkServiceAvailability posted loc (s\<lparr>addressErrors := []\<rparr>)))
           \<lparr>showAddressForm := False, showMap := False, selectedMapLocation := None\<rparr>,
         PostUserLocation token (saveBody loc (Some (addressDetails s))) #
         snd (checkServiceAvailability posted loc (s\<lparr>addressErrors := []\<rparr>)))"
    using saveAndContinue_after_failed_save [of s token loc saved posted] by blast
  moreover have "error (fst (saveAndContinue saved posted s)) =
     error (fst (saveAndContinue (Fulfilled ()) posted s))"
    by (rule saveAndContinue_error_ignores_save)
  moreover have "ls_customerLocation s = Some Unparsable \<longrightarrow>
      onMount startInMap posted s = (if startInMap then s\<lparr>showMap := True\<rparr> else s, [])"
    using onMount_unparsable [of s startInMap posted] by blast
  moreover note enrichment_failure_absorbed [of loc s] map_pick_failure_absorbed [of toFixed4 p s]
  ultimately show ?thesis by blast
qed


theorem failures_surfaced_or_absorbed_witness:
  "\<not> truthy (ls_token (state_form\<lparr>ls_token := None\<rparr>)) \<and>
   error (fst (checkServiceAvailability (Fulfilled response_yes) loc_a
     (state_form\<lparr>ls_token := None\<rparr>))) \<noteq> [] \<and>
   saveLocationToBackend (RejectedStatus 500 None) loc_a (Some details_ok)
     (state_form\<lparr>ls_token := None\<rparr>) = (state_form\<lparr>ls_token := None\<rparr>, []) \<and>
   trim (manualAddress state_form) = [] \<and>
   error (fst (handleManualAddressSubmit parseFloat0 (SearchOk [hit0]) state_form)) \<noteq> [] \<and>
   newErrors (addressDetails state0) \<noteq> [] \<and>
   addressErrors (fst (saveAndContinue (Fulfilled ()) (Fulfilled response_yes) state0)) \<noteq> [] \<and>
   snd (saveAndContinue (Fulfilled ()) (Fulfilled response_yes) state0) = [] \<and>
   RejectedStatus 500 None \<noteq> Fulfilled () \<and>
   fst (saveLocationToBackend (RejectedStatus 500 None) loc_a (Some details_ok) state_form) =
     state_form \<and>
   ls_token state_form = Some ''jwt'' \<and>
   newErrors (addressDetails state_form) = [] \<and>
   customerLocation state_form = Some loc_a \<and>
   snd (saveAndContinue (RejectedStatus 500 None) (Fulfilled response_yes) state_form) =
     [PostUserLocation ''jwt'' (saveBody loc_a (Some details_ok)),
      PostCheckAvailability ''jwt'' loc_a, OnServicesFound [service0]] \<and>
   availabilityData
     (fst (saveAndContinue (RejectedStatus 500 None) (Fulfilled response_yes) state_form)) =
     Some response_yes \<and>
   ls_customerLocation state_corrupt = Some Unparsable \<and>
   onMount False (Fulfilled response_yes) state_corrupt = (state_corrupt, []) \<and>
   error (fst (detectCurrentLocation (LocationError None) ReverseFailed state_form)) =
     ''Unable to detect your location. Please try manual address input.''"
  using failures_surfaced_or_absorbed
          [where s = "state_form\<lparr>ls_token := None\<rparr>" and posted = "Fulfilled response_yes"
             and loc = loc_a and saved = "RejectedStatus 500 None"
             and details = "Some details_ok"]
        failures_surfaced_or_absorbed
          [where s = state_form and posted = "Fulfilled response_yes" and loc = loc_a
             and saved = "RejectedStatus 500 None" and details = "Some details_ok"
             and token = "''jwt''" and parseFloat = parseFloat0 and found = "SearchOk [hit0]"
             and msg = None and rev_geo = ReverseFailed]
        failures_surfaced_or_absorbed
          [where s = state0 and posted = "Fulfilled response_yes" and saved = "Fulfilled ()"]
        failures_surfaced_or_absorbed
          [where s = state_corrupt and posted = "Fulfilled response_yes"
             and startInMap = False]
  by (simp add: userVisibleMessage_def state_form_def state_corrupt_def state0_def
      initialState_def truthy_def detectCurrentLocation_def or_str_def details_ok_def
      newErrors_def blank_def trim_def isWhitespace_def emptyAddressDetails_def
      checkServiceAvailability_def response_yes_def)

end
